theory Spec2Isabelle
  imports Complex_Main "HOL-Library.AList"
begin

section \<open>JavaScript values and objects\<close>

text \<open>
  The hooks and the board page pass plain JavaScript objects around: partial board objects,
  Firestore documents, the parameters of an AI instruction. A value is one of the JSON-like
  shapes below; a JavaScript number is modelled as an exact real (Date.now() and all
  coordinates are numbers), so IEEE rounding and NaN are outside the model.
\<close>

datatype jsval = JUndefined | JNull | JBool bool | JNum real | JStr string | JArr "jsval list"

type_synonym jsobj = "string \<rightharpoonup> jsval"

text \<open>Property read \<^verbatim>\<open>o.k\<close>: a missing property reads as undefined.\<close>

definition getp :: "jsobj \<Rightarrow> string \<Rightarrow> jsval" where
  "getp m k = (case m k of None \<Rightarrow> JUndefined | Some v \<Rightarrow> v)"

text \<open>The nullish coalescing operator \<^verbatim>\<open>v ?? d\<close>.\<close>

definition nullish :: "jsval \<Rightarrow> jsval \<Rightarrow> jsval" where
  "nullish v d = (if v = JUndefined \<or> v = JNull then d else v)"

text \<open>Truthiness, as used by \<^verbatim>\<open>||\<close>, \<^verbatim>\<open>!\<close> and \<^verbatim>\<open>if\<close>.\<close>

fun truthy :: "jsval \<Rightarrow> bool" where
  "truthy JUndefined = False"
| "truthy JNull = False"
| "truthy (JBool b) = b"
| "truthy (JNum n) = (n \<noteq> 0)"
| "truthy (JStr s) = (s \<noteq> [])"
| "truthy (JArr vs) = True"

text \<open>
  \<^verbatim>\<open>boardId: string | undefined\<close> and \<^verbatim>\<open>userId: string | undefined\<close>: the guards
  \<^verbatim>\<open>if (!boardId) return\<close> fire on undefined and on the empty string.
\<close>

fun present :: "string option \<Rightarrow> bool" where
  "present None = False"
| "present (Some s) = (s \<noteq> [])"

section \<open>The remote object collection\<close>

text \<open>
  Firestore is used as a black box. A document of \<^verbatim>\<open>boards/{boardId}/objects/{id}\<close> is
  addressed by the pair (boardId, id). The two single-document writes used below behave as
  Firestore documents them: \<^verbatim>\<open>setDoc\<close> replaces the document, \<^verbatim>\<open>updateDoc\<close> overwrites
  the named top-level fields of an existing document and rejects when there is none.
\<close>

type_synonym docref = "string \<times> string"

type_synonym firestore = "docref \<rightharpoonup> jsobj"

datatype error = NotFound | TypeError

definition setDoc :: "firestore \<Rightarrow> docref \<Rightarrow> jsobj \<Rightarrow> firestore" where
  "setDoc db r data = db(r \<mapsto> data)"

definition updateDoc :: "firestore \<Rightarrow> docref \<Rightarrow> jsobj \<Rightarrow> error + firestore" where
  "updateDoc db r data =
     (case db r of None \<Rightarrow> Inl NotFound | Some d \<Rightarrow> Inr (db(r \<mapsto> d ++ data)))"

section \<open>useBoardObjects: addObject and updateObject\<close>

text \<open>
  \<^verbatim>\<open>const id = obj.id || uuidv4()\<close>: the caller's id when it is a non-empty string, else the
  token the generator returns (passed in as \<open>uuid\<close>).
\<close>

definition pickId :: "jsobj \<Rightarrow> string \<Rightarrow> string" where
  "pickId obj uuid =
     (case getp obj ''id'' of JStr s \<Rightarrow> (if truthy (JStr s) then s else uuid) | _ \<Rightarrow> uuid)"

text \<open>
  The object literal \<^verbatim>\<open>fullObj\<close> of addObject; the three conditional spreads
  \<^verbatim>\<open>...(obj.fromId !== undefined && { fromId: obj.fromId })\<close> add the key only when
  the caller's value is not undefined.
\<close>

definition optField :: "jsobj \<Rightarrow> string \<Rightarrow> jsobj" where
  "optField obj k = (if getp obj k \<noteq> JUndefined then [k \<mapsto> getp obj k] else Map.empty)"

definition fullObj :: "string \<Rightarrow> real \<Rightarrow> jsobj \<Rightarrow> string \<Rightarrow> jsobj" where
  "fullObj oid now obj userId =
     [''id'' \<mapsto> JStr oid,
      ''type'' \<mapsto> getp obj ''type'',
      ''x'' \<mapsto> nullish (getp obj ''x'') (JNum 0),
      ''y'' \<mapsto> nullish (getp obj ''y'') (JNum 0),
      ''width'' \<mapsto> nullish (getp obj ''width'') (JNum 200),
      ''height'' \<mapsto> nullish (getp obj ''height'') (JNum 200),
      ''rotation'' \<mapsto> nullish (getp obj ''rotation'') (JNum 0),
      ''text'' \<mapsto> nullish (getp obj ''text'') (JStr ''''),
      ''color'' \<mapsto> nullish (getp obj ''color'') (JStr ''#FFEB3B''),
      ''fontSize'' \<mapsto> nullish (getp obj ''fontSize'') (JNum 16),
      ''createdBy'' \<mapsto> JStr userId,
      ''createdAt'' \<mapsto> JNum now,
      ''updatedAt'' \<mapsto> JNum now]
     ++ optField obj ''fromId'' ++ optField obj ''toId'' ++ optField obj ''points''"

text \<open>
  addObject returns the id (null without a board) and writes one document. The arguments
  \<open>uuid\<close> and \<open>now\<close> stand for the results of \<^verbatim>\<open>uuidv4()\<close> and \<^verbatim>\<open>Date.now()\<close>.
\<close>

definition addObject ::
  "string option \<Rightarrow> string \<Rightarrow> real \<Rightarrow> jsobj \<Rightarrow> string \<Rightarrow> firestore \<Rightarrow> string option \<times> firestore" where
  "addObject boardId uuid now obj userId db =
     (if \<not> present boardId then (None, db)
      else let oid = pickId obj uuid
           in (Some oid, setDoc db (the boardId, oid) (fullObj oid now obj userId)))"

text \<open>
  updateObject hands \<^verbatim>\<open>{ ...updates, updatedAt: Date.now() }\<close> to updateDoc; without a
  board it returns at once.
\<close>

definition updateObject ::
  "string option \<Rightarrow> real \<Rightarrow> string \<Rightarrow> jsobj \<Rightarrow> firestore \<Rightarrow> error + firestore" where
  "updateObject boardId now oid updates db =
     (if \<not> present boardId then Inr db
      else updateDoc db (the boardId, oid) (updates(''updatedAt'' \<mapsto> JNum now)))"

section \<open>BoardPage: creating an object by a canvas click\<close>

text \<open>
  The tools of the board page; \<^verbatim>\<open>handleCanvasClick\<close> looks the active tool up in its table
  of per-type defaults and passes position, type and the table row to addObject, then
  returns to the select tool. \<^verbatim>\<open>(d.width || 200)\<close> falls back to 200 on a missing or zero
  width.
\<close>

datatype Tool = Select | StickyNote | Rectangle | Circle | Line | Arrow | TextTool | Pan

fun toolName :: "Tool \<Rightarrow> string" where
  "toolName Select = ''select''"
| "toolName StickyNote = ''sticky-note''"
| "toolName Rectangle = ''rectangle''"
| "toolName Circle = ''circle''"
| "toolName Line = ''line''"
| "toolName Arrow = ''arrow''"
| "toolName TextTool = ''text''"
| "toolName Pan = ''pan''"

definition defaults :: "string \<rightharpoonup> jsobj" where
  "defaults =
     [''sticky-note'' \<mapsto> [''width'' \<mapsto> JNum 200, ''height'' \<mapsto> JNum 200, ''color'' \<mapsto> JStr ''#FFEB3B'',
                         ''text'' \<mapsto> JStr '''', ''fontSize'' \<mapsto> JNum 16],
      ''rectangle'' \<mapsto> [''width'' \<mapsto> JNum 200, ''height'' \<mapsto> JNum 150, ''color'' \<mapsto> JStr ''#2196F3''],
      ''circle'' \<mapsto> [''width'' \<mapsto> JNum 200, ''height'' \<mapsto> JNum 200, ''color'' \<mapsto> JStr ''#4CAF50''],
      ''text'' \<mapsto> [''width'' \<mapsto> JNum 200, ''height'' \<mapsto> JNum 200, ''color'' \<mapsto> JStr ''#ffffff'',
                  ''text'' \<mapsto> JStr '''', ''fontSize'' \<mapsto> JNum 20],
      ''line'' \<mapsto> [''width'' \<mapsto> JNum 200, ''height'' \<mapsto> JNum 0, ''color'' \<mapsto> JStr ''#ffffff'',
                  ''points'' \<mapsto> JArr [JNum 0, JNum 0, JNum 200, JNum 0], ''strokeWidth'' \<mapsto> JNum 3],
      ''arrow'' \<mapsto> [''width'' \<mapsto> JNum 200, ''height'' \<mapsto> JNum 0, ''color'' \<mapsto> JStr ''#ffffff'',
                   ''points'' \<mapsto> JArr [JNum 0, JNum 0, JNum 200, JNum 0], ''strokeWidth'' \<mapsto> JNum 3]]"

definition orNum :: "jsval \<Rightarrow> real \<Rightarrow> real" where
  "orNum v d = (case v of JNum w \<Rightarrow> (if truthy (JNum w) then w else d) | _ \<Rightarrow> d)"

definition handleCanvasClick ::
  "string option \<Rightarrow> Tool \<Rightarrow> real \<Rightarrow> real \<Rightarrow> (jsobj \<times> string) option \<times> Tool" where
  "handleCanvasClick user activeTool x y =
     (case user of
        None \<Rightarrow> (None, activeTool)
      | Some uid \<Rightarrow>
          if activeTool = Select \<or> activeTool = Pan then (None, activeTool)
          else let d = (case defaults (toolName activeTool) of Some d \<Rightarrow> d | None \<Rightarrow> Map.empty)
               in (Some ([''type'' \<mapsto> JStr (toolName activeTool),
                          ''x'' \<mapsto> JNum (x - orNum (getp d ''width'') 200 / 2),
                          ''y'' \<mapsto> JNum (y - orNum (getp d ''height'') 200 / 2)] ++ d, uid),
                   Select))"

text \<open>A field the caller left out: undefined or null, the cases \<^verbatim>\<open>??\<close> replaces.\<close>

definition omits :: "jsobj \<Rightarrow> string \<Rightarrow> bool" where
  "omits obj k = (getp obj k = JUndefined \<or> getp obj k = JNull)"

section \<open>useCursors: publishing the local cursor\<close>

text \<open>
  The hook's mutable part on the publishing side: the throttle reference and, as a log, the
  setDoc calls issued so far (document reference and data).
\<close>

record cursor_hook =
  throttleRef :: real
  sent :: "(docref \<times> jsobj) list"

text \<open>\<^verbatim>\<open>useRef<number>(0)\<close>: the throttle reference starts at 0; nothing has been sent.\<close>

definition cursor_hook_init :: cursor_hook where
  "cursor_hook_init = \<lparr>throttleRef = 0, sent = []\<rparr>"

text \<open>The document written for a cursor; \<^verbatim>\<open>photoURL || null\<close> stores null for a missing or empty URL.\<close>

definition cursorDoc :: "string \<Rightarrow> string \<Rightarrow> string option \<Rightarrow> real \<Rightarrow> real \<Rightarrow> string \<Rightarrow> real \<Rightarrow> jsobj" where
  "cursorDoc userId displayName photoURL x y color now =
     [''userId'' \<mapsto> JStr userId,
      ''displayName'' \<mapsto> JStr displayName,
      ''photoURL'' \<mapsto> (if present photoURL then JStr (the photoURL) else JNull),
      ''x'' \<mapsto> JNum x,
      ''y'' \<mapsto> JNum y,
      ''color'' \<mapsto> JStr color,
      ''lastUpdated'' \<mapsto> JNum now]"

text \<open>
  updateCursor at clock reading \<open>now\<close>: nothing without a board or a user, nothing within
  50ms of the last write, else one setDoc on \<^verbatim>\<open>boards/{boardId}/cursors/{userId}\<close>.
\<close>

definition updateCursor ::
  "string option \<Rightarrow> string option \<Rightarrow> real \<Rightarrow> real \<Rightarrow> real \<Rightarrow> string \<Rightarrow> string \<Rightarrow> string option
     \<Rightarrow> cursor_hook \<Rightarrow> cursor_hook" where
  "updateCursor boardId userId now x y displayName color photoURL h =
     (if \<not> present boardId \<or> \<not> present userId then h
      else if now - throttleRef h < 50 then h
      else h\<lparr>throttleRef := now,
             sent := sent h @ [((the boardId, the userId),
                                cursorDoc (the userId) displayName photoURL x y color now)]\<rparr>)"

section \<open>WhiteboardCanvas: wheel zoom and pan\<close>

text \<open>
  What the handler reads and writes of the Konva stage: its scale and its position (the stage
  is never rotated or skewed), and of the wheel event: the modifier keys and the deltas.
\<close>

record stage =
  scaleX :: real
  scaleY :: real
  posX :: real
  posY :: real

record wheel_event =
  ctrlKey :: bool
  metaKey :: bool
  deltaX :: real
  deltaY :: real

definition MIN_ZOOM :: real where
  "MIN_ZOOM = 0.1"

definition MAX_ZOOM :: real where
  "MAX_ZOOM = 5"

text \<open>
  \<^verbatim>\<open>getPointerPosition\<close>: the pointer mapped through the inverse of the stage's transform,
  that is from screen to board coordinates; (0, 0) without a stage or a pointer.
\<close>

definition getPointerPosition :: "stage option \<Rightarrow> (real \<times> real) option \<Rightarrow> real \<times> real" where
  "getPointerPosition stage pointer =
     (case stage of None \<Rightarrow> (0, 0)
      | Some st \<Rightarrow> (case pointer of None \<Rightarrow> (0, 0)
          | Some (px, py) \<Rightarrow> ((px - posX st) / scaleX st, (py - posY st) / scaleY st)))"

text \<open>The stage's transform itself: where a board point is drawn on the screen.\<close>

definition toScreen :: "stage \<Rightarrow> real \<times> real \<Rightarrow> real \<times> real" where
  "toScreen st b = (fst b * scaleX st + posX st, snd b * scaleY st + posY st)"

text \<open>
  handleWheel: with ctrl or meta held the wheel zooms by a factor 1.03 about the pointer,
  clamped to the zoom bounds; otherwise it pans by the wheel deltas.
\<close>

definition handleWheel :: "wheel_event \<Rightarrow> (real \<times> real) option \<Rightarrow> stage option \<Rightarrow> stage option" where
  "handleWheel e pointer stage =
     (case stage of None \<Rightarrow> None
      | Some st \<Rightarrow>
          if ctrlKey e \<or> metaKey e then
            (case pointer of None \<Rightarrow> Some st
             | Some (px, py) \<Rightarrow>
                 let oldScale = scaleX st;
                     mx = (px - posX st) / oldScale;
                     my = (py - posY st) / oldScale;
                     scaleBy = 1.03;
                     direction = (if deltaY e > 0 then - 1 else 1 :: int);
                     newScale = (if direction > 0 then oldScale * scaleBy else oldScale / scaleBy);
                     newScale = max MIN_ZOOM (min MAX_ZOOM newScale)
                 in Some (st\<lparr>scaleX := newScale, scaleY := newScale,
                              posX := px - mx * newScale, posY := py - my * newScale\<rparr>))
          else Some (st\<lparr>posX := posX st - deltaX e, posY := posY st - deltaY e\<rparr>))"

section \<open>useCursors and usePresence: receiving snapshots\<close>

text \<open>
  The cursor cache is a JavaScript Map from document id to cursor data, kept here as an
  association list in insertion order: \<^verbatim>\<open>set\<close> overwrites in place or appends
  (\<^const>\<open>AList.update\<close>), \<^verbatim>\<open>delete\<close> removes the key (\<^const>\<open>AList.delete\<close>). A snapshot
  delivers a list of document changes.
\<close>

record CursorData =
  cursor_userId :: string
  cursor_displayName :: string
  cursor_photoURL :: "string option"
  cursor_x :: real
  cursor_y :: real
  cursor_color :: string
  lastUpdated :: real

datatype change_type = Added | Modified | Removed

record 'a doc_change =
  change_type :: change_type
  doc_id :: string
  doc_data :: 'a

type_synonym cursor_map = "(string \<times> CursorData) list"

text \<open>One iteration of \<^verbatim>\<open>snapshot.docChanges().forEach\<close>; \<open>localId\<close> is the hook's userId.\<close>

definition applyCursorChange :: "string option \<Rightarrow> cursor_map \<Rightarrow> CursorData doc_change \<Rightarrow> cursor_map" where
  "applyCursorChange localId next change =
     (if change_type change = Added \<or> change_type change = Modified then
        (if Some (cursor_userId (doc_data change)) \<noteq> localId
         then AList.update (doc_id change) (doc_data change) next else next)
      else if change_type change = Removed then AList.delete (doc_id change) next
      else next)"

text \<open>
  The stale sweep \<^verbatim>\<open>for (const [key, cursor] of next)\<close>: every entry of the map is visited
  once and deleted by key when more than 30000ms old.
\<close>

definition staleStep :: "real \<Rightarrow> cursor_map \<Rightarrow> string \<times> CursorData \<Rightarrow> cursor_map" where
  "staleStep now m entry =
     (if now - lastUpdated (snd entry) > 30000 then AList.delete (fst entry) m else m)"

definition cleanStale :: "real \<Rightarrow> cursor_map \<Rightarrow> cursor_map" where
  "cleanStale now next = foldl (staleStep now) next next"

text \<open>The snapshot callback, run at clock reading \<open>now\<close> on the previous cache.\<close>

definition onCursorSnapshot ::
  "string option \<Rightarrow> real \<Rightarrow> CursorData doc_change list \<Rightarrow> cursor_map \<Rightarrow> cursor_map" where
  "onCursorSnapshot localId now changes prev =
     cleanStale now (foldl (applyCursorChange localId) prev changes)"

text \<open>The returned list \<^verbatim>\<open>Array.from(cursors.values())\<close>.\<close>

definition cursors :: "cursor_map \<Rightarrow> CursorData list" where
  "cursors m = map snd m"

text \<open>
  The cache of a mounted hook after a sequence of snapshot deliveries. The subscription
  effect depends on \<^verbatim>\<open>[boardId, userId]\<close>: when the userId the hook is rendered with
  changes, the listener is replaced by one that closes over the new userId, while the Map
  held by \<^verbatim>\<open>useState\<close> is kept. So each delivery comes with the userId of the listener that
  receives it, besides the clock reading at which it is processed and its changes; the
  cache starts empty.
\<close>

type_synonym delivery = "string option \<times> real \<times> CursorData doc_change list"

definition deliver :: "cursor_map \<Rightarrow> delivery \<Rightarrow> cursor_map" where
  "deliver m d = (case d of (localId, now, changes) \<Rightarrow> onCursorSnapshot localId now changes m)"

definition useCursors_run :: "delivery list \<Rightarrow> cursor_map" where
  "useCursors_run deliveries = foldl deliver [] deliveries"



text \<open>No entry of the cache carries the local user's id.\<close>

definition notOwn :: "string option \<Rightarrow> cursor_map \<Rightarrow> bool" where
  "notOwn localId m = (\<forall>e \<in> set m. Some (cursor_userId (snd e)) \<noteq> localId)"

section \<open>BoardPage: the debounced update buffer\<close>

text \<open>
  The part of the board page the buffer touches: the pending map (a JavaScript Map, kept in
  insertion order), the flush timer, and as logs the calls made to the hook's
  \<^verbatim>\<open>updateObjects\<close> (one batch each) and \<^verbatim>\<open>updateObject\<close>. The timer is kept as the
  deadline of the armed timeout, \<open>None\<close> when none is armed; \<^verbatim>\<open>clearTimeout\<close> followed by
  \<^verbatim>\<open>setTimeout(flushPendingUpdates, 50)\<close> replaces the deadline by now + 50.
\<close>

record batch_entry =
  entry_id :: string
  entry_changes :: jsobj

record board_page =
  pendingUpdates :: "(string \<times> jsobj) list"
  flushTimer :: "real option"
  updateObjects_calls :: "batch_entry list list"
  updateObject_calls :: "(string \<times> jsobj) list"

definition board_page_init :: board_page where
  "board_page_init = \<lparr>pendingUpdates = [], flushTimer = None, updateObjects_calls = [], updateObject_calls = []\<rparr>"

definition flushPendingUpdates :: "board_page \<Rightarrow> board_page" where
  "flushPendingUpdates st =
     (if pendingUpdates st = [] then st
      else let batch = map (\<lambda>(i, c). \<lparr>entry_id = i, entry_changes = c\<rparr>) (pendingUpdates st)
           in st\<lparr>pendingUpdates := [], updateObjects_calls := updateObjects_calls st @ [batch]\<rparr>)"

text \<open>\<^verbatim>\<open>pendingUpdates.current.get(id) || {}\<close>\<close>

definition pendingFor :: "board_page \<Rightarrow> string \<Rightarrow> jsobj" where
  "pendingFor st i = (case map_of (pendingUpdates st) i of None \<Rightarrow> Map.empty | Some old \<Rightarrow> old)"

definition debouncedUpdate :: "real \<Rightarrow> string \<Rightarrow> jsobj \<Rightarrow> board_page \<Rightarrow> board_page" where
  "debouncedUpdate now i updates st =
     st\<lparr>pendingUpdates := AList.update i (pendingFor st i ++ updates) (pendingUpdates st),
        flushTimer := Some (now + 50)\<rparr>"

text \<open>The routing test of handleObjectUpdate, \<^verbatim>\<open>'x' in updates\<close> being key presence.\<close>

definition isPositionUpdate :: "jsobj \<Rightarrow> bool" where
  "isPositionUpdate updates =
     ((updates ''x'' \<noteq> None \<or> updates ''y'' \<noteq> None \<or> updates ''width'' \<noteq> None
        \<or> updates ''height'' \<noteq> None \<or> updates ''rotation'' \<noteq> None)
      \<and> updates ''text'' = None \<and> updates ''color'' = None \<and> updates ''strokeWidth'' = None)"

definition handleObjectUpdate :: "real \<Rightarrow> string \<Rightarrow> jsobj \<Rightarrow> board_page \<Rightarrow> board_page" where
  "handleObjectUpdate now i updates st =
     (if isPositionUpdate updates then debouncedUpdate now i updates st
      else st\<lparr>updateObject_calls := updateObject_calls st @ [(i, updates)]\<rparr>)"

text \<open>
  The event loop at clock reading \<open>t\<close>: an armed timeout whose deadline has passed runs its
  callback.
\<close>

definition runTimers :: "real \<Rightarrow> board_page \<Rightarrow> board_page" where
  "runTimers t st =
     (case flushTimer st of
        None \<Rightarrow> st
      | Some deadline \<Rightarrow> if deadline \<le> t then flushPendingUpdates (st\<lparr>flushTimer := None\<rparr>) else st)"

text \<open>A geometry-only update names at least one field, all among x, y, width, height, rotation.\<close>

definition geometryOnly :: "jsobj \<Rightarrow> bool" where
  "geometryOnly updates =
     (dom updates \<noteq> {} \<and> dom updates \<subseteq> {''x'', ''y'', ''width'', ''height'', ''rotation''})"

section \<open>BoardPage: executing AI instructions\<close>

text \<open>
  An instruction is an action name with its parameters; \<open>None\<close> stands for parameters that
  are null or undefined, on which a property read throws a TypeError. The three arrays
  \<^verbatim>\<open>creates\<close>, \<^verbatim>\<open>updates\<close>, \<^verbatim>\<open>deletes\<close> are carried as a triple; an update entry is the
  pair of its id and its changes. The calls into the sync layer are recorded as values.
\<close>

type_synonym instruction = "string \<times> jsobj option"

type_synonym ai_batches = "jsobj list \<times> (jsval \<times> jsobj) list \<times> jsval list"

datatype sync_call =
  AddObjects "jsobj list" string
| UpdateObjects "(jsval \<times> jsobj) list"
| DeleteObjects "jsval list"

text \<open>The object literals pushed by the five create cases.\<close>

definition createStickyNote :: "jsobj \<Rightarrow> jsobj" where
  "createStickyNote params =
     [''type'' \<mapsto> JStr ''sticky-note'',
      ''x'' \<mapsto> nullish (getp params ''x'') (JNum 0), ''y'' \<mapsto> nullish (getp params ''y'') (JNum 0),
      ''width'' \<mapsto> nullish (getp params ''width'') (JNum 200),
      ''height'' \<mapsto> nullish (getp params ''height'') (JNum 200),
      ''color'' \<mapsto> nullish (getp params ''color'') (JStr ''#FFEB3B''),
      ''text'' \<mapsto> nullish (getp params ''text'') (JStr '''')]"

definition createShape :: "jsobj \<Rightarrow> jsobj" where
  "createShape params =
     [''type'' \<mapsto> (if getp params ''type'' = JStr ''circle'' then JStr ''circle'' else JStr ''rectangle''),
      ''x'' \<mapsto> nullish (getp params ''x'') (JNum 0), ''y'' \<mapsto> nullish (getp params ''y'') (JNum 0),
      ''width'' \<mapsto> nullish (getp params ''width'') (JNum 200),
      ''height'' \<mapsto> nullish (getp params ''height'') (JNum 150),
      ''color'' \<mapsto> nullish (getp params ''color'') (JStr ''#2196F3'')]"

definition createFrame :: "jsobj \<Rightarrow> jsobj" where
  "createFrame params =
     [''type'' \<mapsto> JStr ''frame'',
      ''x'' \<mapsto> nullish (getp params ''x'') (JNum 0), ''y'' \<mapsto> nullish (getp params ''y'') (JNum 0),
      ''width'' \<mapsto> nullish (getp params ''width'') (JNum 400),
      ''height'' \<mapsto> nullish (getp params ''height'') (JNum 300),
      ''color'' \<mapsto> nullish (getp params ''color'') (JStr ''#37474F''),
      ''text'' \<mapsto> nullish (getp params ''title'') (JStr ''Frame'')]"

definition createText :: "jsobj \<Rightarrow> jsobj" where
  "createText params =
     [''type'' \<mapsto> JStr ''text'',
      ''x'' \<mapsto> nullish (getp params ''x'') (JNum 0), ''y'' \<mapsto> nullish (getp params ''y'') (JNum 0),
      ''width'' \<mapsto> JNum 300, ''height'' \<mapsto> JNum 50,
      ''color'' \<mapsto> nullish (getp params ''color'') (JStr ''#ffffff''),
      ''text'' \<mapsto> nullish (getp params ''text'') (JStr ''''),
      ''fontSize'' \<mapsto> nullish (getp params ''fontSize'') (JNum 20)]"

definition createConnector :: "jsobj \<Rightarrow> jsobj" where
  "createConnector params =
     [''type'' \<mapsto> JStr ''connector'',
      ''x'' \<mapsto> JNum 0, ''y'' \<mapsto> JNum 0, ''width'' \<mapsto> JNum 0, ''height'' \<mapsto> JNum 0,
      ''color'' \<mapsto> nullish (getp params ''color'') (JStr ''#ffffff''),
      ''fromId'' \<mapsto> getp params ''fromId'', ''toId'' \<mapsto> getp params ''toId'']"

text \<open>The entries pushed by the four update cases.\<close>

definition moveObject :: "jsobj \<Rightarrow> jsval \<times> jsobj" where
  "moveObject params = (getp params ''objectId'', [''x'' \<mapsto> getp params ''x'', ''y'' \<mapsto> getp params ''y''])"

definition resizeObject :: "jsobj \<Rightarrow> jsval \<times> jsobj" where
  "resizeObject params =
     (getp params ''objectId'', [''width'' \<mapsto> getp params ''width'', ''height'' \<mapsto> getp params ''height''])"

definition updateText :: "jsobj \<Rightarrow> jsval \<times> jsobj" where
  "updateText params = (getp params ''objectId'', [''text'' \<mapsto> getp params ''newText''])"

definition changeColor :: "jsobj \<Rightarrow> jsval \<times> jsobj" where
  "changeColor params = (getp params ''objectId'', [''color'' \<mapsto> getp params ''color''])"

text \<open>\<^verbatim>\<open>creates.push\<close>, \<^verbatim>\<open>updates.push\<close> and \<^verbatim>\<open>deletes.push\<close>, reading the parameters.\<close>

definition pushCreate :: "ai_batches \<Rightarrow> jsobj option \<Rightarrow> (jsobj \<Rightarrow> jsobj) \<Rightarrow> error + ai_batches" where
  "pushCreate b params mk =
     (case params of None \<Rightarrow> Inl TypeError
      | Some p \<Rightarrow> (case b of (creates, updates, deletes) \<Rightarrow> Inr (creates @ [mk p], updates, deletes)))"

definition pushUpdate :: "ai_batches \<Rightarrow> jsobj option \<Rightarrow> (jsobj \<Rightarrow> jsval \<times> jsobj) \<Rightarrow> error + ai_batches" where
  "pushUpdate b params mk =
     (case params of None \<Rightarrow> Inl TypeError
      | Some p \<Rightarrow> (case b of (creates, updates, deletes) \<Rightarrow> Inr (creates, updates @ [mk p], deletes)))"

definition pushDelete :: "ai_batches \<Rightarrow> jsobj option \<Rightarrow> error + ai_batches" where
  "pushDelete b params =
     (case params of None \<Rightarrow> Inl TypeError
      | Some p \<Rightarrow> (case b of (creates, updates, deletes) \<Rightarrow> Inr (creates, updates, deletes @ [getp p ''objectId''])))"

text \<open>The \<^verbatim>\<open>switch (action)\<close>; it has no default case.\<close>

definition switchAction :: "ai_batches \<Rightarrow> instruction \<Rightarrow> error + ai_batches" where
  "switchAction b instr =
     (case instr of (action, params) \<Rightarrow>
        if action = ''createStickyNote'' then pushCreate b params createStickyNote
        else if action = ''createShape'' then pushCreate b params createShape
        else if action = ''createFrame'' then pushCreate b params createFrame
        else if action = ''createText'' then pushCreate b params createText
        else if action = ''createConnector'' then pushCreate b params createConnector
        else if action = ''moveObject'' then pushUpdate b params moveObject
        else if action = ''resizeObject'' then pushUpdate b params resizeObject
        else if action = ''updateText'' then pushUpdate b params updateText
        else if action = ''changeColor'' then pushUpdate b params changeColor
        else if action = ''deleteObject'' then pushDelete b params
        else Inr b)"

text \<open>The loop \<^verbatim>\<open>for (const { action, params } of actions)\<close>.\<close>

fun classify :: "ai_batches \<Rightarrow> instruction list \<Rightarrow> error + ai_batches" where
  "classify b [] = Inr b"
| "classify b (instr # rest) =
     (case switchAction b instr of Inl e \<Rightarrow> Inl e | Inr b' \<Rightarrow> classify b' rest)"

text \<open>
  executeAIActions: nothing without a user; otherwise the loop, then one batch call for each
  non-empty array.
\<close>

definition executeAIActions :: "string option \<Rightarrow> instruction list \<Rightarrow> error + sync_call list" where
  "executeAIActions user actions =
     (case user of
        None \<Rightarrow> Inr []
      | Some uid \<Rightarrow>
          (case classify ([], [], []) actions of
             Inl e \<Rightarrow> Inl e
           | Inr (creates, updates, deletes) \<Rightarrow>
               Inr ((if creates \<noteq> [] then [AddObjects creates uid] else [])
                    @ (if updates \<noteq> [] then [UpdateObjects updates] else [])
                    @ (if deletes \<noteq> [] then [DeleteObjects deletes] else []))))"

text \<open>
  The catalogue of ten actions and, in the words of the specification, the three groups of a
  list of instructions: its creations, its updates and its deletions, each in the order of
  the list. The request an instruction stands for is written out here on its own, from the
  instruction's parameters: a create request takes each parameter the instruction gives and
  the action's default for each it leaves out; an update entry addresses
  \<^verbatim>\<open>objectId\<close> and carries the fields of its action.
\<close>

definition createActions :: "string list" where
  "createActions = [''createStickyNote'', ''createShape'', ''createFrame'', ''createText'', ''createConnector'']"

definition updateActions :: "string list" where
  "updateActions = [''moveObject'', ''resizeObject'', ''updateText'', ''changeColor'']"

definition catalogue :: "string list" where
  "catalogue = createActions @ updateActions @ [''deleteObject'']"

definition createRequest :: "instruction \<Rightarrow> jsobj" where
  "createRequest instr =
     (case instr of (action, params) \<Rightarrow>
        let p = the params;
            x = nullish (getp p ''x'') (JNum 0);
            y = nullish (getp p ''y'') (JNum 0)
        in if action = ''createStickyNote'' then
             [''type'' \<mapsto> JStr ''sticky-note'', ''x'' \<mapsto> x, ''y'' \<mapsto> y,
              ''width'' \<mapsto> nullish (getp p ''width'') (JNum 200),
              ''height'' \<mapsto> nullish (getp p ''height'') (JNum 200),
              ''color'' \<mapsto> nullish (getp p ''color'') (JStr ''#FFEB3B''),
              ''text'' \<mapsto> nullish (getp p ''text'') (JStr [])]
           else if action = ''createShape'' then
             [''type'' \<mapsto> JStr (if getp p ''type'' = JStr ''circle'' then ''circle'' else ''rectangle''),
              ''x'' \<mapsto> x, ''y'' \<mapsto> y,
              ''width'' \<mapsto> nullish (getp p ''width'') (JNum 200),
              ''height'' \<mapsto> nullish (getp p ''height'') (JNum 150),
              ''color'' \<mapsto> nullish (getp p ''color'') (JStr ''#2196F3'')]
           else if action = ''createFrame'' then
             [''type'' \<mapsto> JStr ''frame'', ''x'' \<mapsto> x, ''y'' \<mapsto> y,
              ''width'' \<mapsto> nullish (getp p ''width'') (JNum 400),
              ''height'' \<mapsto> nullish (getp p ''height'') (JNum 300),
              ''color'' \<mapsto> nullish (getp p ''color'') (JStr ''#37474F''),
              ''text'' \<mapsto> nullish (getp p ''title'') (JStr ''Frame'')]
           else if action = ''createText'' then
             [''type'' \<mapsto> JStr ''text'', ''x'' \<mapsto> x, ''y'' \<mapsto> y,
              ''width'' \<mapsto> JNum 300, ''height'' \<mapsto> JNum 50,
              ''color'' \<mapsto> nullish (getp p ''color'') (JStr ''#ffffff''),
              ''text'' \<mapsto> nullish (getp p ''text'') (JStr []),
              ''fontSize'' \<mapsto> nullish (getp p ''fontSize'') (JNum 20)]
           else
             [''type'' \<mapsto> JStr ''connector'', ''x'' \<mapsto> JNum 0, ''y'' \<mapsto> JNum 0,
              ''width'' \<mapsto> JNum 0, ''height'' \<mapsto> JNum 0,
              ''color'' \<mapsto> nullish (getp p ''color'') (JStr ''#ffffff''),
              ''fromId'' \<mapsto> getp p ''fromId'', ''toId'' \<mapsto> getp p ''toId''])"

definition updateRequest :: "instruction \<Rightarrow> jsval \<times> jsobj" where
  "updateRequest instr =
     (case instr of (action, params) \<Rightarrow>
        let p = the params
        in (getp p ''objectId'',
            if action = ''moveObject'' then [''x'' \<mapsto> getp p ''x'', ''y'' \<mapsto> getp p ''y'']
            else if action = ''resizeObject'' then
              [''width'' \<mapsto> getp p ''width'', ''height'' \<mapsto> getp p ''height'']
            else if action = ''updateText'' then [''text'' \<mapsto> getp p ''newText'']
            else [''color'' \<mapsto> getp p ''color'']))"

definition deleteRequest :: "instruction \<Rightarrow> jsval" where
  "deleteRequest instr = getp (the (snd instr)) ''objectId''"

definition creations :: "instruction list \<Rightarrow> jsobj list" where
  "creations actions = map createRequest (filter (\<lambda>instr. fst instr \<in> set createActions) actions)"

definition modifications :: "instruction list \<Rightarrow> (jsval \<times> jsobj) list" where
  "modifications actions = map updateRequest (filter (\<lambda>instr. fst instr \<in> set updateActions) actions)"

definition deletions :: "instruction list \<Rightarrow> jsval list" where
  "deletions actions = map deleteRequest (filter (\<lambda>instr. fst instr = ''deleteObject'') actions)"

section \<open>Properties of updateObject\<close>

text \<open>
  C1. For every object id and every update(id, partialFields) on an existing document of
  the board, the stored document afterwards is the prior document with the named fields of
  partialFields written over it and updatedAt set to the current time: a field named in
  partialFields (other than updatedAt) takes the new value, a field not named keeps its
  previous value, and every other document is untouched. The update merges, it does not
  replace.
\<close>

theorem updateObject_partial_merge:
  assumes "present boardId" and "db (the boardId, oid) = Some prior"
  shows "\<exists>db'. updateObject boardId now oid updates db = Inr db'
           \<and> db' (the boardId, oid) = Some ((prior ++ updates)(''updatedAt'' \<mapsto> JNum now))
           \<and> getp (the (db' (the boardId, oid))) ''updatedAt'' = JNum now
           \<and> (\<forall>k. k \<noteq> ''updatedAt'' \<longrightarrow>
                 the (db' (the boardId, oid)) k = (case updates k of Some v \<Rightarrow> Some v | None \<Rightarrow> prior k))
           \<and> (\<forall>r. r \<noteq> (the boardId, oid) \<longrightarrow> db' r = db r)"
  using assms
  by (auto simp: updateObject_def updateDoc_def getp_def map_add_def split: option.splits)

theorem updateObject_partial_merge_witness:
  "\<exists>db'. updateObject (Some ''b1'') 1000 ''o1'' [''x'' \<mapsto> JNum 5]
            [(''b1'', ''o1'') \<mapsto> [''x'' \<mapsto> JNum 1, ''color'' \<mapsto> JStr ''#fff'', ''updatedAt'' \<mapsto> JNum 7]] = Inr db'
         \<and> getp (the (db' (''b1'', ''o1''))) ''x'' = JNum 5
         \<and> getp (the (db' (''b1'', ''o1''))) ''color'' = JStr ''#fff''
         \<and> getp (the (db' (''b1'', ''o1''))) ''updatedAt'' = JNum 1000"
  using updateObject_partial_merge [of "Some ''b1''"
      "[(''b1'', ''o1'') \<mapsto> [''x'' \<mapsto> JNum 1, ''color'' \<mapsto> JStr ''#fff'', ''updatedAt'' \<mapsto> JNum 7]]"
      "''o1''" "[''x'' \<mapsto> JNum 1, ''color'' \<mapsto> JStr ''#fff'', ''updatedAt'' \<mapsto> JNum 7]"
      1000 "[''x'' \<mapsto> JNum 5]"]
  by (auto simp: getp_def)

text \<open>
  C7. Applying update(id, {x: 5, y: 5}) a second time, at a later clock reading, leaves every
  field but updatedAt as the first application left it: in particular the geometry
  (x, y, width, height, rotation) is the same, with x = y = 5; updatedAt is the later time.
\<close>

theorem updateObject_twice_same_geometry:
  assumes "present boardId" and "db (the boardId, oid) = Some prior" and "t1 < t2"
  shows "\<exists>db1 db2 d1 d2 a b.
           updateObject boardId t1 oid [''x'' \<mapsto> JNum 5, ''y'' \<mapsto> JNum 5] db = Inr db1
         \<and> updateObject boardId t2 oid [''x'' \<mapsto> JNum 5, ''y'' \<mapsto> JNum 5] db1 = Inr db2
         \<and> db1 (the boardId, oid) = Some d1 \<and> db2 (the boardId, oid) = Some d2
         \<and> getp d2 ''x'' = JNum 5 \<and> getp d2 ''y'' = JNum 5
         \<and> getp d2 ''x'' = getp d1 ''x'' \<and> getp d2 ''y'' = getp d1 ''y''
         \<and> getp d2 ''width'' = getp d1 ''width'' \<and> getp d2 ''height'' = getp d1 ''height''
         \<and> getp d2 ''rotation'' = getp d1 ''rotation''
         \<and> (\<forall>k. k \<noteq> ''updatedAt'' \<longrightarrow> d2 k = d1 k)
         \<and> getp d1 ''updatedAt'' = JNum a \<and> getp d2 ''updatedAt'' = JNum b \<and> a < b"
  using assms
  by (auto simp: updateObject_def updateDoc_def getp_def map_add_def split: option.splits)

theorem updateObject_twice_same_geometry_witness:
  "\<exists>db1 db2 d2.
      updateObject (Some ''b1'') 10 ''o1'' [''x'' \<mapsto> JNum 5, ''y'' \<mapsto> JNum 5]
        [(''b1'', ''o1'') \<mapsto> [''x'' \<mapsto> JNum 1, ''width'' \<mapsto> JNum 40, ''updatedAt'' \<mapsto> JNum 7]] = Inr db1
    \<and> updateObject (Some ''b1'') 20 ''o1'' [''x'' \<mapsto> JNum 5, ''y'' \<mapsto> JNum 5] db1 = Inr db2
    \<and> db2 (''b1'', ''o1'') = Some d2
    \<and> getp d2 ''x'' = JNum 5 \<and> getp d2 ''y'' = JNum 5 \<and> getp d2 ''width'' = JNum 40
    \<and> getp d2 ''updatedAt'' = JNum 20"
  using updateObject_twice_same_geometry [of "Some ''b1''"
      "[(''b1'', ''o1'') \<mapsto> [''x'' \<mapsto> JNum 1, ''width'' \<mapsto> JNum 40, ''updatedAt'' \<mapsto> JNum 7]]"
      "''o1''" "[''x'' \<mapsto> JNum 1, ''width'' \<mapsto> JNum 40, ''updatedAt'' \<mapsto> JNum 7]" 10 20]
  by (auto simp: updateObject_def updateDoc_def getp_def)

section \<open>Properties of addObject\<close>

lemma omitted: "v = JUndefined \<or> v = JNull \<Longrightarrow> nullish v d = d"
  by (auto simp: nullish_def)

lemma fullObj_apply:
  "k \<notin> {''fromId'', ''toId'', ''points''} \<Longrightarrow>
   fullObj oid now obj userId k =
     [''id'' \<mapsto> JStr oid,
      ''type'' \<mapsto> getp obj ''type'',
      ''x'' \<mapsto> nullish (getp obj ''x'') (JNum 0),
      ''y'' \<mapsto> nullish (getp obj ''y'') (JNum 0),
      ''width'' \<mapsto> nullish (getp obj ''width'') (JNum 200),
      ''height'' \<mapsto> nullish (getp obj ''height'') (JNum 200),
      ''rotation'' \<mapsto> nullish (getp obj ''rotation'') (JNum 0),
      ''text'' \<mapsto> nullish (getp obj ''text'') (JStr ''''),
      ''color'' \<mapsto> nullish (getp obj ''color'') (JStr ''#FFEB3B''),
      ''fontSize'' \<mapsto> nullish (getp obj ''fontSize'') (JNum 16),
      ''createdBy'' \<mapsto> JStr userId,
      ''createdAt'' \<mapsto> JNum now,
      ''updatedAt'' \<mapsto> JNum now] k"
  by (auto simp: fullObj_def optField_def map_add_def split: option.splits)

lemma fullObj_fields:
  "getp (fullObj oid now obj userId) ''id'' = JStr oid"
  "getp (fullObj oid now obj userId) ''type'' = getp obj ''type''"
  "getp (fullObj oid now obj userId) ''width'' = nullish (getp obj ''width'') (JNum 200)"
  "getp (fullObj oid now obj userId) ''height'' = nullish (getp obj ''height'') (JNum 200)"
  "getp (fullObj oid now obj userId) ''rotation'' = nullish (getp obj ''rotation'') (JNum 0)"
  "getp (fullObj oid now obj userId) ''color'' = nullish (getp obj ''color'') (JStr ''#FFEB3B'')"
  "getp (fullObj oid now obj userId) ''fontSize'' = nullish (getp obj ''fontSize'') (JNum 16)"
  "getp (fullObj oid now obj userId) ''createdBy'' = JStr userId"
  "getp (fullObj oid now obj userId) ''createdAt'' = JNum now"
  "getp (fullObj oid now obj userId) ''updatedAt'' = JNum now"
  by (simp_all add: getp_def fullObj_apply)

text \<open>
  A click with the sticky-note tool at (x, y) creates a 200 by 200 note centred on the click,
  in the sticky note's colour and with font size 16, and returns to the select tool.
\<close>

lemma handleCanvasClick_sticky_note:
  "\<exists>obj. handleCanvasClick (Some uid) StickyNote x y = (Some (obj, uid), Select)
         \<and> getp (fullObj oid now obj uid) ''type'' = JStr ''sticky-note''
         \<and> getp (fullObj oid now obj uid) ''width'' = JNum 200
         \<and> getp (fullObj oid now obj uid) ''height'' = JNum 200
         \<and> getp (fullObj oid now obj uid) ''color'' = JStr ''#FFEB3B''
         \<and> getp (fullObj oid now obj uid) ''fontSize'' = JNum 16
         \<and> getp obj ''x'' = JNum (x - 100) \<and> getp obj ''y'' = JNum (y - 100)"
proof -
  let ?obj = "[''type'' \<mapsto> JStr ''sticky-note'', ''x'' \<mapsto> JNum (x - 100), ''y'' \<mapsto> JNum (y - 100)]
                ++ the (defaults ''sticky-note'')"
  have click: "handleCanvasClick (Some uid) StickyNote x y = (Some (?obj, uid), Select)"
    by (simp add: handleCanvasClick_def defaults_def orNum_def getp_def Let_def)
  have fields:
    "getp ?obj ''type'' = JStr ''sticky-note''" "getp ?obj ''width'' = JNum 200"
    "getp ?obj ''height'' = JNum 200" "getp ?obj ''color'' = JStr ''#FFEB3B''"
    "getp ?obj ''fontSize'' = JNum 16" "getp ?obj ''x'' = JNum (x - 100)" "getp ?obj ''y'' = JNum (y - 100)"
    by (simp_all add: getp_def defaults_def map_add_def)
  show ?thesis
    apply (rule exI [of _ ?obj])
    using click by (simp only: fullObj_fields fields nullish_def) simp
qed

text \<open>
  C2, as stated, fails: a rectangle created without a colour is stored with the sticky-note
  yellow, not with the colour the per-type table gives a rectangle.
\<close>

theorem addObject_color_counterexample:
  "getp (the (snd (addObject (Some ''b1'') ''tok'' 1 [''type'' \<mapsto> JStr ''rectangle''] ''user-1'' Map.empty)
               (''b1'', ''tok''))) ''color''
     \<noteq> getp (the (defaults ''rectangle'')) ''color''"
  by (simp add: addObject_def setDoc_def fullObj_def pickId_def optField_def getp_def nullish_def defaults_def Let_def)

text \<open>
  C2, amended. For every create call on a board, each of width, height, rotation, fontSize
  and color that the caller omits is stored as 200, 200, 0, 16 and '#FFEB3B'; the colour
  default is this one value whatever the type (it is the sticky note's colour in the
  per-type table). createdBy is the caller's user id, createdAt and updatedAt are the current
  time, the document is keyed by the caller's non-empty id or else by the generated token,
  and that id is returned.
\<close>

theorem addObject_defaults:
  assumes "present boardId"
  shows "\<exists>oid doc. addObject boardId uuid now obj userId db = (Some oid, db((the boardId, oid) \<mapsto> doc))
           \<and> oid = pickId obj uuid
           \<and> (\<forall>s. getp obj ''id'' = JStr s \<and> s \<noteq> [] \<longrightarrow> oid = s)
           \<and> (omits obj ''id'' \<longrightarrow> oid = uuid)
           \<and> getp doc ''id'' = JStr oid
           \<and> (omits obj ''width'' \<longrightarrow> getp doc ''width'' = JNum 200)
           \<and> (omits obj ''height'' \<longrightarrow> getp doc ''height'' = JNum 200)
           \<and> (omits obj ''rotation'' \<longrightarrow> getp doc ''rotation'' = JNum 0)
           \<and> (omits obj ''fontSize'' \<longrightarrow> getp doc ''fontSize'' = JNum 16)
           \<and> (omits obj ''color'' \<longrightarrow> getp doc ''color'' = JStr ''#FFEB3B'')
           \<and> getp (the (defaults ''sticky-note'')) ''color'' = JStr ''#FFEB3B''
           \<and> getp doc ''createdBy'' = JStr userId
           \<and> getp doc ''createdAt'' = JNum now
           \<and> getp doc ''updatedAt'' = JNum now"
proof -
  let ?oid = "pickId obj uuid"
  let ?doc = "fullObj ?oid now obj userId"
  have run: "addObject boardId uuid now obj userId db = (Some ?oid, db((the boardId, ?oid) \<mapsto> ?doc))"
    using assms by (simp add: addObject_def setDoc_def Let_def)
  have id1: "\<forall>s. getp obj ''id'' = JStr s \<and> s \<noteq> [] \<longrightarrow> ?oid = s"
    by (simp add: pickId_def)
  have id2: "omits obj ''id'' \<longrightarrow> ?oid = uuid"
    by (auto simp: pickId_def omits_def)
  have tab: "getp (the (defaults ''sticky-note'')) ''color'' = JStr ''#FFEB3B''"
    by (simp add: defaults_def getp_def)
  show ?thesis
    apply (rule exI [of _ ?oid], rule exI [of _ ?doc])
    using run id1 id2 tab by (simp add: fullObj_fields omits_def omitted)
qed

theorem addObject_defaults_witness:
  "\<exists>doc. addObject (Some ''b1'') ''tok'' 42 [''type'' \<mapsto> JStr ''sticky-note''] ''user-1'' Map.empty
            = (Some ''tok'', [(''b1'', ''tok'') \<mapsto> doc])
         \<and> getp doc ''width'' = JNum 200 \<and> getp doc ''height'' = JNum 200
         \<and> getp doc ''rotation'' = JNum 0 \<and> getp doc ''fontSize'' = JNum 16
         \<and> getp doc ''color'' = JStr ''#FFEB3B''
         \<and> getp doc ''createdBy'' = JStr ''user-1'' \<and> getp doc ''updatedAt'' = JNum 42"
  using addObject_defaults [of "Some ''b1''" "''tok''" 42 "[''type'' \<mapsto> JStr ''sticky-note'']" "''user-1''" Map.empty]
  by (auto simp: omits_def getp_def pickId_def)

section \<open>Properties of the cursor throttle\<close>

text \<open>
  C4. The cursor publisher is a leading-edge 50ms throttle. Cursor moves at t, t+10ms and
  t+60ms, the first of a fresh hook (t is a clock reading, at least 50), cause exactly two
  writes, those of the first and the third call; the second is dropped. In general a call
  50ms or more after the last write is written at once, and a call within 50ms of it leaves
  the hook's state as it was: it is dropped, not queued.
\<close>

theorem updateCursor_leading_edge_throttle:
  assumes "present boardId" and "present userId" and "50 \<le> T"
  shows "sent (updateCursor boardId userId (T + 60) x3 y3 n c p
           (updateCursor boardId userId (T + 10) x2 y2 n c p
             (updateCursor boardId userId T x1 y1 n c p cursor_hook_init)))
         = [((the boardId, the userId), cursorDoc (the userId) n p x1 y1 c T),
            ((the boardId, the userId), cursorDoc (the userId) n p x3 y3 c (T + 60))]
       \<and> (50 \<le> now - throttleRef h \<longrightarrow>
            updateCursor boardId userId now x y n c p h
              = \<lparr>throttleRef = now,
                 sent = sent h @ [((the boardId, the userId), cursorDoc (the userId) n p x y c now)]\<rparr>)
       \<and> (now - throttleRef h < 50 \<longrightarrow> updateCursor boardId userId now x y n c p h = h)"
  using assms by (simp add: updateCursor_def cursor_hook_init_def)

theorem updateCursor_leading_edge_throttle_witness:
  "map (\<lambda>w. getp (snd w) ''lastUpdated'')
     (sent (updateCursor (Some ''b1'') (Some ''u1'') 1060 20 20 ''User'' ''#fff'' None
           (updateCursor (Some ''b1'') (Some ''u1'') 1010 10 10 ''User'' ''#fff'' None
             (updateCursor (Some ''b1'') (Some ''u1'') 1000 0 0 ''User'' ''#fff'' None cursor_hook_init))))
   = [JNum 1000, JNum 1060]"
  using updateCursor_leading_edge_throttle [of "Some ''b1''" "Some ''u1''" 1000 20 20 "''User''" "''#fff''" None 10 10 0 0]
  by (simp add: cursorDoc_def getp_def)

section \<open>Properties of the wheel handler\<close>

text \<open>
  C8. From a uniformly scaled stage whose scale lies in [0.1, 5], every wheel event leaves
  the scale in [0.1, 5]; and a zoom step (ctrl or meta held, pointer on the stage) keeps the
  board point under the pointer at the pointer's screen position.
\<close>

theorem handleWheel_clamped_and_anchored:
  assumes "scaleY st = scaleX st" and "MIN_ZOOM \<le> scaleX st" and "scaleX st \<le> MAX_ZOOM"
  shows "\<exists>st'. handleWheel e pointer (Some st) = Some st'
           \<and> MIN_ZOOM \<le> scaleX st' \<and> scaleX st' \<le> MAX_ZOOM \<and> scaleY st' = scaleX st'
           \<and> (\<forall>p. (ctrlKey e \<or> metaKey e) \<and> pointer = Some p \<longrightarrow>
                 toScreen st' (getPointerPosition (Some st) (Some p)) = p)"
proof (cases "ctrlKey e \<or> metaKey e")
  case False
  then show ?thesis using assms by (simp add: handleWheel_def)
next
  case zoom: True
  show ?thesis
  proof (cases pointer)
    case None
    then show ?thesis using assms zoom by (simp add: handleWheel_def)
  next
    case (Some p)
    obtain px py where p: "p = (px, py)" by (cases p)
    have nz: "scaleX st \<noteq> 0" using assms(2) by (simp add: MIN_ZOOM_def)
    show ?thesis using assms zoom Some p nz
      by (simp add: handleWheel_def Let_def toScreen_def getPointerPosition_def MIN_ZOOM_def MAX_ZOOM_def)
  qed
qed

theorem handleWheel_clamped_and_anchored_witness:
  "handleWheel \<lparr>ctrlKey = True, metaKey = False, deltaX = 0, deltaY = - 1\<rparr> (Some (30, 40))
     (Some \<lparr>scaleX = 4.9, scaleY = 4.9, posX = 10, posY = 20\<rparr>)
   = Some \<lparr>scaleX = 5, scaleY = 5, posX = 30 - (20 / 4.9) * 5, posY = 40 - (20 / 4.9) * 5\<rparr>
   \<and> toScreen \<lparr>scaleX = 5, scaleY = 5, posX = 30 - (20 / 4.9) * 5, posY = 40 - (20 / 4.9) * 5\<rparr>
       (getPointerPosition (Some \<lparr>scaleX = 4.9, scaleY = 4.9, posX = 10, posY = 20\<rparr>) (Some (30, 40))) = (30, 40)"
  using handleWheel_clamped_and_anchored [of "\<lparr>scaleX = 4.9, scaleY = 4.9, posX = 10, posY = 20\<rparr>"
      "\<lparr>ctrlKey = True, metaKey = False, deltaX = 0, deltaY = - 1\<rparr>" "Some (30, 40)"]
  by (simp add: handleWheel_def Let_def MIN_ZOOM_def MAX_ZOOM_def)

section \<open>Properties of the cursor and presence subscribers\<close>

lemma set_delete_subset: "set (AList.delete k m) \<subseteq> set m"
  by (auto simp: AList.delete_eq)


lemma staleStep_subset: "set (staleStep now m entry) \<subseteq> set m"
  using set_delete_subset [of "fst entry" m] by (simp add: staleStep_def)

lemma stale_fold_subset: "set (foldl (staleStep now) m xs) \<subseteq> set m"
proof (induction xs arbitrary: m)
  case Nil
  show ?case by simp
next
  case (Cons a xs)
  have "set (foldl (staleStep now) (staleStep now m a) xs) \<subseteq> set (staleStep now m a)"
    by (rule Cons.IH)
  also have "\<dots> \<subseteq> set m"
    by (rule staleStep_subset)
  finally show ?case by simp
qed


lemma cleanStale_subset: "set (cleanStale now m) \<subseteq> set m"
  unfolding cleanStale_def by (rule stale_fold_subset)






lemma set_update_subset: "set (AList.update k v m) \<subseteq> insert (k, v) (set m)"
  by (induction m) auto

lemma applyCursorChange_notOwn:
  assumes "notOwn localId m"
  shows "notOwn localId (applyCursorChange localId m ch)"
  using assms set_update_subset [of "doc_id ch" "doc_data ch" m] set_delete_subset [of "doc_id ch" m]
  unfolding notOwn_def applyCursorChange_def by (cases "change_type ch") auto

lemma changes_fold_notOwn:
  "notOwn localId m \<Longrightarrow> notOwn localId (foldl (applyCursorChange localId) m changes)"
  by (induction changes arbitrary: m) (simp_all add: applyCursorChange_notOwn)

lemma onCursorSnapshot_notOwn:
  assumes "notOwn localId prev"
  shows "notOwn localId (onCursorSnapshot localId now changes prev)"
  using changes_fold_notOwn [OF assms, of changes]
    cleanStale_subset [of now "foldl (applyCursorChange localId) prev changes"]
  unfolding notOwn_def onCursorSnapshot_def by blast

lemma deliveries_fold_notOwn:
  assumes "\<forall>d \<in> set deliveries. fst d = localId"
  shows "notOwn localId m \<Longrightarrow> notOwn localId (foldl deliver m deliveries)"
  using assms
proof (induction deliveries arbitrary: m)
  case Nil
  then show ?case by simp
next
  case (Cons d rest)
  obtain now changes where d: "d = (localId, now, changes)"
    using Cons.prems(2) by (cases d) auto
  have "notOwn localId (deliver m d)"
    using Cons.prems(1) by (simp add: d deliver_def onCursorSnapshot_notOwn)
  then show ?case using Cons.IH Cons.prems(2) by simp
qed

text \<open>
  As long as every delivery since the mount is received under one and the same userId, the
  returned list holds no cursor of that user; and an added or modified change carrying the
  listener's userId leaves the cache as it was.
\<close>

lemma own_cursor_not_listed_under_fixed_userId:
  assumes "\<forall>d \<in> set deliveries. fst d = localId"
  shows "\<forall>c \<in> set (cursors (useCursors_run deliveries)). Some (cursor_userId c) \<noteq> localId"
proof -
  have "notOwn localId []" by (simp add: notOwn_def)
  then have "notOwn localId (useCursors_run deliveries)"
    unfolding useCursors_run_def using assms by (rule deliveries_fold_notOwn [rotated])
  then show ?thesis by (auto simp: notOwn_def cursors_def)
qed

lemma own_change_skipped:
  "change_type ch \<noteq> Removed \<Longrightarrow> Some (cursor_userId (doc_data ch)) = localId \<Longrightarrow>
   applyCursorChange localId m ch = m"
  by (simp add: applyCursorChange_def)

text \<open>
  C9. The claim is that after every snapshot delivery the returned cursor list has no entry
  whose userId is the local user's id. The hook does not keep this across a change of its
  userId. Rendered first without a userId (the page passes \<^verbatim>\<open>user?.uid\<close>), the hook stores
  the cursor document of user-1 like any other; rendered then with userId user-1, the new
  listener skips the added change for that document but nothing deletes the entry already
  in the Map: the returned list holds the local user's own cursor.
\<close>

theorem own_cursor_listed_after_userId_change:
  "map cursor_userId (cursors (useCursors_run
      [(None, 1000,
        [\<lparr>change_type = Added, doc_id = ''user-1'',
          doc_data = \<lparr>cursor_userId = ''user-1'', cursor_displayName = ''Me'', cursor_photoURL = None,
                      cursor_x = 0, cursor_y = 0, cursor_color = ''#fff'', lastUpdated = 900\<rparr>\<rparr>]),
       (Some ''user-1'', 1010,
        [\<lparr>change_type = Added, doc_id = ''user-1'',
          doc_data = \<lparr>cursor_userId = ''user-1'', cursor_displayName = ''Me'', cursor_photoURL = None,
                      cursor_x = 0, cursor_y = 0, cursor_color = ''#fff'', lastUpdated = 900\<rparr>\<rparr>])]))
   = [''user-1'']"
  by (simp add: cursors_def useCursors_run_def deliver_def onCursorSnapshot_def cleanStale_def
        staleStep_def applyCursorChange_def)

section \<open>Properties of the debounced buffer\<close>

lemma geometryOnly_position:
  assumes "geometryOnly u"
  shows "isPositionUpdate u"
proof -
  from assms have "dom u \<noteq> {}" unfolding geometryOnly_def by blast
  then obtain k where k: "k \<in> dom u" by blast
  with assms have "k \<in> {''x'', ''y'', ''width'', ''height'', ''rotation''}"
    by (auto simp: geometryOnly_def)
  with k have some: "u ''x'' \<noteq> None \<or> u ''y'' \<noteq> None \<or> u ''width'' \<noteq> None
        \<or> u ''height'' \<noteq> None \<or> u ''rotation'' \<noteq> None"
    by auto
  have "''text'' \<notin> dom u" "''color'' \<notin> dom u" "''strokeWidth'' \<notin> dom u"
    using assms by (auto simp: geometryOnly_def)
  then have "u ''text'' = None" "u ''color'' = None" "u ''strokeWidth'' = None"
    by auto
  with some show ?thesis by (simp add: isPositionUpdate_def)
qed

lemma filter_update_distinct:
  "distinct (map fst al) \<Longrightarrow> filter (\<lambda>e. fst e = k) (AList.update k v al) = [(k, v)]"
proof (induction al)
  case Nil
  show ?case by simp
next
  case (Cons a al)
  show ?case
  proof (cases "fst a = k")
    case True
    then have "k \<notin> fst ` set al" using Cons.prems by auto
    then have "filter (\<lambda>e. fst e = k) al = []" by (auto simp: filter_empty_conv)
    then show ?thesis using True by simp
  next
    case False
    then show ?thesis using Cons by simp
  qed
qed

lemma debounce_twice:
  "pendingUpdates (debouncedUpdate t2 i u2 (debouncedUpdate t1 i u1 st))
     = AList.update i (pendingFor st i ++ u1 ++ u2) (pendingUpdates st)"
  by (simp add: debouncedUpdate_def pendingFor_def update_conv')


text \<open>
  C3. Two geometry-only updates of the same object id, the second less than 50ms after the
  first, cause exactly one call of the batch write once the buffer has been quiet for 50ms,
  and none before; the batch holds exactly one entry for that id, whose changes are what was
  pending for the id, overwritten by the first update's fields, overwritten by the second's:
  the union of the changed fields with the most recent value of each.
\<close>

theorem debounce_merges_by_id:
  assumes "geometryOnly u1" and "geometryOnly u2"
    and "t1 \<le> t2" and "t2 < t1 + 50" and "t2 + 50 \<le> T"
    and "distinct (map fst (pendingUpdates st))"
  shows "\<exists>batch.
           updateObjects_calls
             (runTimers T (handleObjectUpdate t2 i u2 (runTimers t2 (handleObjectUpdate t1 i u1 st))))
             = updateObjects_calls st @ [batch]
         \<and> filter (\<lambda>e. entry_id e = i) batch
             = [\<lparr>entry_id = i, entry_changes = pendingFor st i ++ u1 ++ u2\<rparr>]
         \<and> (\<forall>t. t < t2 + 50 \<longrightarrow>
               updateObjects_calls
                 (runTimers t (handleObjectUpdate t2 i u2 (runTimers t2 (handleObjectUpdate t1 i u1 st))))
               = updateObjects_calls st)"
proof -
  let ?s1 = "handleObjectUpdate t1 i u1 st"
  let ?s2 = "handleObjectUpdate t2 i u2 (runTimers t2 ?s1)"
  let ?al = "AList.update i (pendingFor st i ++ u1 ++ u2) (pendingUpdates st)"
  let ?batch = "map (\<lambda>(i, c). \<lparr>entry_id = i, entry_changes = c\<rparr>) ?al"
  have s1: "?s1 = debouncedUpdate t1 i u1 st"
    using assms(1) by (simp add: handleObjectUpdate_def geometryOnly_position)
  have quiet: "runTimers t2 ?s1 = ?s1"
    using assms(4) by (simp add: s1 runTimers_def debouncedUpdate_def)
  have "?s2 = handleObjectUpdate t2 i u2 (debouncedUpdate t1 i u1 st)"
    using quiet s1 by simp
  also have "\<dots> = debouncedUpdate t2 i u2 (debouncedUpdate t1 i u1 st)"
    using assms(2) by (simp add: handleObjectUpdate_def geometryOnly_position)
  finally have s2: "?s2 = debouncedUpdate t2 i u2 (debouncedUpdate t1 i u1 st)" .
  have pend: "pendingUpdates ?s2 = ?al"
    by (simp add: s2 debounce_twice)
  have timer: "flushTimer ?s2 = Some (t2 + 50)"
    by (simp add: s2 debouncedUpdate_def)
  have calls: "updateObjects_calls ?s2 = updateObjects_calls st"
    by (simp add: s2 debouncedUpdate_def)
  have fired: "updateObjects_calls (runTimers T ?s2) = updateObjects_calls st @ [?batch]"
    using assms(5) pend timer calls by (simp add: runTimers_def flushPendingUpdates_def Let_def)
  have "filter (\<lambda>e. entry_id e = i) ?batch
          = map (\<lambda>(i, c). \<lparr>entry_id = i, entry_changes = c\<rparr>) (filter (\<lambda>e. fst e = i) ?al)"
    by (simp add: filter_map o_def case_prod_beta)
  then have one: "filter (\<lambda>e. entry_id e = i) ?batch = [\<lparr>entry_id = i, entry_changes = pendingFor st i ++ u1 ++ u2\<rparr>]"
    using assms(6) by (simp add: filter_update_distinct)
  have before: "\<forall>t. t < t2 + 50 \<longrightarrow> updateObjects_calls (runTimers t ?s2) = updateObjects_calls st"
    using timer calls by (simp add: runTimers_def)
  from fired one before show ?thesis by blast
qed

theorem debounce_merges_by_id_witness:
  "geometryOnly [''x'' \<mapsto> JNum 1, ''y'' \<mapsto> JNum 2] \<and> geometryOnly [''x'' \<mapsto> JNum 3]
   \<and> (\<exists>batch.
         updateObjects_calls
           (runTimers 1070 (handleObjectUpdate 1020 ''o1'' [''x'' \<mapsto> JNum 3]
             (runTimers 1020 (handleObjectUpdate 1000 ''o1'' [''x'' \<mapsto> JNum 1, ''y'' \<mapsto> JNum 2]
               board_page_init)))) = [batch]
       \<and> map entry_id batch = [''o1'']
       \<and> map (\<lambda>e. getp (entry_changes e) ''x'') batch = [JNum 3]
       \<and> map (\<lambda>e. getp (entry_changes e) ''y'') batch = [JNum 2])"
  using debounce_merges_by_id [of "[''x'' \<mapsto> JNum 1, ''y'' \<mapsto> JNum 2]" "[''x'' \<mapsto> JNum 3]"
      1000 1020 1070 board_page_init "''o1''"]
  by (simp add: geometryOnly_def board_page_init_def handleObjectUpdate_def isPositionUpdate_def
        debouncedUpdate_def runTimers_def flushPendingUpdates_def pendingFor_def getp_def Let_def)

section \<open>Properties of the AI instruction executor\<close>

lemma createRequest_executor:
  "createRequest (''createStickyNote'', Some p) = createStickyNote p"
  "createRequest (''createShape'', Some p) = createShape p"
  "createRequest (''createFrame'', Some p) = createFrame p"
  "createRequest (''createText'', Some p) = createText p"
  "createRequest (''createConnector'', Some p) = createConnector p"
  by (simp_all add: createRequest_def createStickyNote_def createShape_def createFrame_def
      createText_def createConnector_def Let_def)

lemma updateRequest_executor:
  "updateRequest (''moveObject'', Some p) = moveObject p"
  "updateRequest (''resizeObject'', Some p) = resizeObject p"
  "updateRequest (''updateText'', Some p) = updateText p"
  "updateRequest (''changeColor'', Some p) = changeColor p"
  by (simp_all add: updateRequest_def moveObject_def resizeObject_def updateText_def
      changeColor_def Let_def)

lemma switchAction_catalogued:
  assumes "fst instr \<in> set catalogue" and "snd instr \<noteq> None"
  shows "switchAction (cs, us, ds) instr
         = Inr (cs @ creations [instr], us @ modifications [instr], ds @ deletions [instr])"
proof -
  obtain a p where i: "instr = (a, Some p)" using assms(2) by (cases instr) auto
  from assms(1) show ?thesis
    unfolding i catalogue_def createActions_def updateActions_def
    by (auto simp: switchAction_def pushCreate_def pushUpdate_def pushDelete_def creations_def
        modifications_def deletions_def createRequest_executor updateRequest_executor
        deleteRequest_def createActions_def updateActions_def)
qed

lemma switchAction_unknown:
  "fst instr \<notin> set catalogue \<Longrightarrow> switchAction b instr = Inr b"
  by (cases instr) (simp add: switchAction_def catalogue_def createActions_def updateActions_def)

lemma creations_append: "creations (xs @ ys) = creations xs @ creations ys"
  by (simp add: creations_def)

lemma modifications_append: "modifications (xs @ ys) = modifications xs @ modifications ys"
  by (simp add: modifications_def)

lemma deletions_append: "deletions (xs @ ys) = deletions xs @ deletions ys"
  by (simp add: deletions_def)

lemma classify_catalogued:
  assumes "\<forall>instr \<in> set actions. fst instr \<in> set catalogue \<and> snd instr \<noteq> None"
  shows "classify (cs, us, ds) actions
         = Inr (cs @ creations actions, us @ modifications actions, ds @ deletions actions)"
  using assms
proof (induction actions arbitrary: cs us ds)
  case Nil
  show ?case by (simp add: creations_def modifications_def deletions_def)
next
  case (Cons instr rest)
  have step: "switchAction (cs, us, ds) instr
         = Inr (cs @ creations [instr], us @ modifications [instr], ds @ deletions [instr])"
    using Cons.prems by (simp add: switchAction_catalogued)
  have rest: "classify (cs @ creations [instr], us @ modifications [instr], ds @ deletions [instr]) rest
         = Inr ((cs @ creations [instr]) @ creations rest, (us @ modifications [instr]) @ modifications rest,
                (ds @ deletions [instr]) @ deletions rest)"
    using Cons.prems by (intro Cons.IH) simp
  have split: "instr # rest = [instr] @ rest" by simp
  show ?case
    unfolding split creations_append modifications_append deletions_append
    using step rest by simp
qed

lemma partition_lengths:
  assumes "\<forall>instr \<in> set actions. fst instr \<in> set catalogue"
  shows "length (creations actions) + length (modifications actions) + length (deletions actions)
         = length actions"
  using assms
proof (induction actions)
  case Nil
  show ?case by (simp add: creations_def modifications_def deletions_def)
next
  case (Cons instr rest)
  have "fst instr \<in> set catalogue" using Cons.prems by simp
  then have one: "length (creations [instr]) + length (modifications [instr]) + length (deletions [instr]) = 1"
    by (auto simp: catalogue_def createActions_def updateActions_def creations_def modifications_def
        deletions_def)
  have "length (creations rest) + length (modifications rest) + length (deletions rest) = length rest"
    using Cons by simp
  with one show ?case
    using creations_append [of "[instr]" rest] modifications_append [of "[instr]" rest]
      deletions_append [of "[instr]" rest]
    by simp
qed

lemma classify_skip_unknown:
  assumes "fst instr \<notin> set catalogue"
  shows "classify b (xs @ instr # ys) = classify b (xs @ ys)"
proof (induction xs arbitrary: b)
  case Nil
  show ?case using assms by (simp add: switchAction_unknown)
next
  case (Cons a xs)
  show ?case by (simp add: Cons.IH split: sum.splits)
qed

text \<open>
  C6. For every list of instructions drawn from the ten-action catalogue (each with a
  parameter object), the executor splits the list into exactly three groups, creations,
  updates and deletions, every instruction falling in one of them, and issues one batch call
  of the sync layer for each non-empty group: addObjects, updateObjects, deleteObjects. A
  create instruction becomes the typed create request that carries each parameter given
  and the action's default for each parameter left out, as listed for the five actions;
  moveObject maps to {x, y}, resizeObject to {width, height}, updateText to {text},
  changeColor to {color}, each addressed to the instruction's objectId, and deleteObject to
  that id.
\<close>

theorem executeAIActions_partitions:
  assumes "\<forall>instr \<in> set actions. fst instr \<in> set catalogue \<and> snd instr \<noteq> None"
  shows "executeAIActions (Some uid) actions
           = Inr ((if creations actions \<noteq> [] then [AddObjects (creations actions) uid] else [])
                  @ (if modifications actions \<noteq> [] then [UpdateObjects (modifications actions)] else [])
                  @ (if deletions actions \<noteq> [] then [DeleteObjects (deletions actions)] else []))
         \<and> length (creations actions) + length (modifications actions) + length (deletions actions)
             = length actions
         \<and> createRequest (''createStickyNote'', Some p)
             = [''type'' \<mapsto> JStr ''sticky-note'',
                ''x'' \<mapsto> nullish (getp p ''x'') (JNum 0), ''y'' \<mapsto> nullish (getp p ''y'') (JNum 0),
                ''width'' \<mapsto> nullish (getp p ''width'') (JNum 200),
                ''height'' \<mapsto> nullish (getp p ''height'') (JNum 200),
                ''color'' \<mapsto> nullish (getp p ''color'') (JStr ''#FFEB3B''),
                ''text'' \<mapsto> nullish (getp p ''text'') (JStr [])]
         \<and> createRequest (''createShape'', Some p)
             = [''type'' \<mapsto> JStr (if getp p ''type'' = JStr ''circle'' then ''circle'' else ''rectangle''),
                ''x'' \<mapsto> nullish (getp p ''x'') (JNum 0), ''y'' \<mapsto> nullish (getp p ''y'') (JNum 0),
                ''width'' \<mapsto> nullish (getp p ''width'') (JNum 200),
                ''height'' \<mapsto> nullish (getp p ''height'') (JNum 150),
                ''color'' \<mapsto> nullish (getp p ''color'') (JStr ''#2196F3'')]
         \<and> createRequest (''createFrame'', Some p)
             = [''type'' \<mapsto> JStr ''frame'',
                ''x'' \<mapsto> nullish (getp p ''x'') (JNum 0), ''y'' \<mapsto> nullish (getp p ''y'') (JNum 0),
                ''width'' \<mapsto> nullish (getp p ''width'') (JNum 400),
                ''height'' \<mapsto> nullish (getp p ''height'') (JNum 300),
                ''color'' \<mapsto> nullish (getp p ''color'') (JStr ''#37474F''),
                ''text'' \<mapsto> nullish (getp p ''title'') (JStr ''Frame'')]
         \<and> createRequest (''createText'', Some p)
             = [''type'' \<mapsto> JStr ''text'',
                ''x'' \<mapsto> nullish (getp p ''x'') (JNum 0), ''y'' \<mapsto> nullish (getp p ''y'') (JNum 0),
                ''width'' \<mapsto> JNum 300, ''height'' \<mapsto> JNum 50,
                ''color'' \<mapsto> nullish (getp p ''color'') (JStr ''#ffffff''),
                ''text'' \<mapsto> nullish (getp p ''text'') (JStr []),
                ''fontSize'' \<mapsto> nullish (getp p ''fontSize'') (JNum 20)]
         \<and> createRequest (''createConnector'', Some p)
             = [''type'' \<mapsto> JStr ''connector'', ''x'' \<mapsto> JNum 0, ''y'' \<mapsto> JNum 0,
                ''width'' \<mapsto> JNum 0, ''height'' \<mapsto> JNum 0,
                ''color'' \<mapsto> nullish (getp p ''color'') (JStr ''#ffffff''),
                ''fromId'' \<mapsto> getp p ''fromId'', ''toId'' \<mapsto> getp p ''toId'']
         \<and> updateRequest (''moveObject'', Some p)
             = (getp p ''objectId'', [''x'' \<mapsto> getp p ''x'', ''y'' \<mapsto> getp p ''y''])
         \<and> updateRequest (''resizeObject'', Some p)
             = (getp p ''objectId'', [''width'' \<mapsto> getp p ''width'', ''height'' \<mapsto> getp p ''height''])
         \<and> updateRequest (''updateText'', Some p) = (getp p ''objectId'', [''text'' \<mapsto> getp p ''newText''])
         \<and> updateRequest (''changeColor'', Some p) = (getp p ''objectId'', [''color'' \<mapsto> getp p ''color''])
         \<and> deleteRequest (''deleteObject'', Some p) = getp p ''objectId''"
proof -
  have run: "classify ([], [], []) actions
          = Inr (creations actions, modifications actions, deletions actions)"
    using classify_catalogued [OF assms, of "[]" "[]" "[]"] by simp
  have calls: "executeAIActions (Some uid) actions
           = Inr ((if creations actions \<noteq> [] then [AddObjects (creations actions) uid] else [])
                  @ (if modifications actions \<noteq> [] then [UpdateObjects (modifications actions)] else [])
                  @ (if deletions actions \<noteq> [] then [DeleteObjects (deletions actions)] else []))"
    by (simp add: executeAIActions_def run)
  have lens: "length (creations actions) + length (modifications actions) + length (deletions actions)
             = length actions"
    using assms by (simp add: partition_lengths)
  have requests:
    "createRequest (''createStickyNote'', Some p)
             = [''type'' \<mapsto> JStr ''sticky-note'',
                ''x'' \<mapsto> nullish (getp p ''x'') (JNum 0), ''y'' \<mapsto> nullish (getp p ''y'') (JNum 0),
                ''width'' \<mapsto> nullish (getp p ''width'') (JNum 200),
                ''height'' \<mapsto> nullish (getp p ''height'') (JNum 200),
                ''color'' \<mapsto> nullish (getp p ''color'') (JStr ''#FFEB3B''),
                ''text'' \<mapsto> nullish (getp p ''text'') (JStr [])]"
    "createRequest (''createShape'', Some p)
             = [''type'' \<mapsto> JStr (if getp p ''type'' = JStr ''circle'' then ''circle'' else ''rectangle''),
                ''x'' \<mapsto> nullish (getp p ''x'') (JNum 0), ''y'' \<mapsto> nullish (getp p ''y'') (JNum 0),
                ''width'' \<mapsto> nullish (getp p ''width'') (JNum 200),
                ''height'' \<mapsto> nullish (getp p ''height'') (JNum 150),
                ''color'' \<mapsto> nullish (getp p ''color'') (JStr ''#2196F3'')]"
    "createRequest (''createFrame'', Some p)
             = [''type'' \<mapsto> JStr ''frame'',
                ''x'' \<mapsto> nullish (getp p ''x'') (JNum 0), ''y'' \<mapsto> nullish (getp p ''y'') (JNum 0),
                ''width'' \<mapsto> nullish (getp p ''width'') (JNum 400),
                ''height'' \<mapsto> nullish (getp p ''height'') (JNum 300),
                ''color'' \<mapsto> nullish (getp p ''color'') (JStr ''#37474F''),
                ''text'' \<mapsto> nullish (getp p ''title'') (JStr ''Frame'')]"
    "createRequest (''createText'', Some p)
             = [''type'' \<mapsto> JStr ''text'',
                ''x'' \<mapsto> nullish (getp p ''x'') (JNum 0), ''y'' \<mapsto> nullish (getp p ''y'') (JNum 0),
                ''width'' \<mapsto> JNum 300, ''height'' \<mapsto> JNum 50,
                ''color'' \<mapsto> nullish (getp p ''color'') (JStr ''#ffffff''),
                ''text'' \<mapsto> nullish (getp p ''text'') (JStr []),
                ''fontSize'' \<mapsto> nullish (getp p ''fontSize'') (JNum 20)]"
    "createRequest (''createConnector'', Some p)
             = [''type'' \<mapsto> JStr ''connector'', ''x'' \<mapsto> JNum 0, ''y'' \<mapsto> JNum 0,
                ''width'' \<mapsto> JNum 0, ''height'' \<mapsto> JNum 0,
                ''color'' \<mapsto> nullish (getp p ''color'') (JStr ''#ffffff''),
                ''fromId'' \<mapsto> getp p ''fromId'', ''toId'' \<mapsto> getp p ''toId'']"
    "updateRequest (''moveObject'', Some p)
             = (getp p ''objectId'', [''x'' \<mapsto> getp p ''x'', ''y'' \<mapsto> getp p ''y''])"
    "updateRequest (''resizeObject'', Some p)
             = (getp p ''objectId'', [''width'' \<mapsto> getp p ''width'', ''height'' \<mapsto> getp p ''height''])"
    "updateRequest (''updateText'', Some p) = (getp p ''objectId'', [''text'' \<mapsto> getp p ''newText''])"
    "updateRequest (''changeColor'', Some p) = (getp p ''objectId'', [''color'' \<mapsto> getp p ''color''])"
    "deleteRequest (''deleteObject'', Some p) = getp p ''objectId''"
    by (simp_all add: createRequest_def updateRequest_def deleteRequest_def Let_def)
  show ?thesis
    using calls lens requests by blast
qed

text \<open>
  An instance: a sticky note with text and position, a connector between two objects, a
  move and a deletion. The three calls carry the AI's text, position, endpoints, target ids
  and coordinates, and the defaults for what it left out.
\<close>

theorem executeAIActions_partitions_witness:
  "executeAIActions (Some ''user-1'')
     [(''createStickyNote'', Some [''text'' \<mapsto> JStr ''hi'', ''x'' \<mapsto> JNum 10, ''y'' \<mapsto> JNum 20]),
      (''moveObject'', Some [''objectId'' \<mapsto> JStr ''o1'', ''x'' \<mapsto> JNum 5, ''y'' \<mapsto> JNum 6]),
      (''createConnector'', Some [''fromId'' \<mapsto> JStr ''o1'', ''toId'' \<mapsto> JStr ''o3'']),
      (''deleteObject'', Some [''objectId'' \<mapsto> JStr ''o2''])]
   = Inr [AddObjects
            [[''type'' \<mapsto> JStr ''sticky-note'', ''x'' \<mapsto> JNum 10, ''y'' \<mapsto> JNum 20,
              ''width'' \<mapsto> JNum 200, ''height'' \<mapsto> JNum 200, ''color'' \<mapsto> JStr ''#FFEB3B'',
              ''text'' \<mapsto> JStr ''hi''],
             [''type'' \<mapsto> JStr ''connector'', ''x'' \<mapsto> JNum 0, ''y'' \<mapsto> JNum 0,
              ''width'' \<mapsto> JNum 0, ''height'' \<mapsto> JNum 0, ''color'' \<mapsto> JStr ''#ffffff'',
              ''fromId'' \<mapsto> JStr ''o1'', ''toId'' \<mapsto> JStr ''o3'']]
            ''user-1'',
          UpdateObjects [(JStr ''o1'', [''x'' \<mapsto> JNum 5, ''y'' \<mapsto> JNum 6])],
          DeleteObjects [JStr ''o2'']]"
  using executeAIActions_partitions [of
      "[(''createStickyNote'', Some [''text'' \<mapsto> JStr ''hi'', ''x'' \<mapsto> JNum 10, ''y'' \<mapsto> JNum 20]),
        (''moveObject'', Some [''objectId'' \<mapsto> JStr ''o1'', ''x'' \<mapsto> JNum 5, ''y'' \<mapsto> JNum 6]),
        (''createConnector'', Some [''fromId'' \<mapsto> JStr ''o1'', ''toId'' \<mapsto> JStr ''o3'']),
        (''deleteObject'', Some [''objectId'' \<mapsto> JStr ''o2''])]" "''user-1''"]
  by (simp add: catalogue_def createActions_def updateActions_def creations_def modifications_def
      deletions_def createRequest_def updateRequest_def deleteRequest_def getp_def nullish_def Let_def)

text \<open>
  C10. An instruction whose action is outside the catalogue changes nothing and raises
  nothing: executing a list with it gives the same result as executing the list without
  it, and executing it alone issues no call.
\<close>

theorem unknown_action_skipped:
  assumes "fst instr \<notin> set catalogue"
  shows "executeAIActions user (xs @ instr # ys) = executeAIActions user (xs @ ys)
         \<and> executeAIActions user [instr] = Inr []"
proof -
  have skip: "classify ([], [], []) (xs @ instr # ys) = classify ([], [], []) (xs @ ys)"
    using assms by (rule classify_skip_unknown)
  have same: "executeAIActions user (xs @ instr # ys) = executeAIActions user (xs @ ys)"
    unfolding executeAIActions_def skip by (rule refl)
  have "classify ([], [], []) [instr] = Inr ([], [], [])"
    using assms by (simp add: switchAction_unknown)
  then have "executeAIActions user [instr] = Inr []"
    by (simp add: executeAIActions_def split: option.splits)
  with same show ?thesis by simp
qed

theorem unknown_action_skipped_witness:
  "executeAIActions (Some ''user-1'')
     [(''createStickyNote'', Some Map.empty), (''explodeBoard'', None),
      (''deleteObject'', Some [''objectId'' \<mapsto> JStr ''o1''])]
   = Inr [AddObjects [createStickyNote Map.empty] ''user-1'', DeleteObjects [JStr ''o1'']]
   \<and> executeAIActions (Some ''user-1'') [(''explodeBoard'', None)] = Inr []"
  using unknown_action_skipped [of "(''explodeBoard'', None)" "Some ''user-1''"
      "[(''createStickyNote'', Some Map.empty)]" "[(''deleteObject'', Some [''objectId'' \<mapsto> JStr ''o1''])]"]
  by (simp add: catalogue_def createActions_def updateActions_def executeAIActions_def switchAction_def
      pushCreate_def pushDelete_def getp_def)

end
